theory Spec2Isabelle
  imports Main "HOL-Library.List_Lexorder" "HOL-Library.Char_ord"
begin

text \<open>
  A shallow embedding of the message-forwarding bridge between the WeChat service
  account and CXone: the payload normalizer, the two outbound adapters, the resilient
  HTTP transport and the two webhook handlers, followed by the properties proved of
  them. Code outside the repository (wechatpy, httpx, tenacity, pybreaker, FastAPI) is
  a parameter of the definitions or, where said so, modelled from the specification.
\<close>

section \<open>Exceptions (app/exceptions.py)\<close>

text \<open>
  Every exception that travels through the application is a value of \<open>exn\<close>.
  The first six constructors are the classes of app/exceptions.py; the status code of
  \<open>ValidationError\<close>, \<open>AuthenticationError\<close> and \<open>MessageProcessingError\<close> is
  fixed by the class, the one of the \<open>ExternalAPIError\<close> family is an argument.
  \<open>details\<close> is kept for the \<open>ExternalAPIError\<close> family only (a dict of strings).
  The remaining constructors are the library exceptions the code names
  (httpx, tenacity, pybreaker) and \<open>LibError cls msg\<close> for any other \<open>Exception\<close>.
\<close>

type_synonym details = "(string \<times> string) list"

datatype exn =
    ValidationError string
  | AuthenticationError string
  | MessageProcessingError string
  | ExternalAPIError string string nat details
  | CXoneAPIError string nat details
  | WeChatAPIError string nat details
  | TimeoutException string
  | NetworkError string
  | HTTPStatusError string nat string
  | RetryError exn
  | CircuitBreakerError string
  | LibError string string

text \<open>
  An exception raised by third-party or built-in code (wechatpy, the ASGI request,
  \<open>bytes.decode\<close>): its class name and its message. Such code never raises a class of
  app/exceptions.py.
\<close>

datatype lib_error = Raised string string

fun lift_lib :: "lib_error \<Rightarrow> exn" where
  "lift_lib (Raised cls msg) = LibError cls msg"

text \<open>\<open>str(e)\<close>: the message given to \<open>Exception.__init__\<close>.\<close>

fun exn_str :: "exn \<Rightarrow> string" where
  "exn_str (ValidationError m) = m"
| "exn_str (AuthenticationError m) = m"
| "exn_str (MessageProcessingError m) = m"
| "exn_str (ExternalAPIError m svc sc d) = m"
| "exn_str (CXoneAPIError m sc d) = m"
| "exn_str (WeChatAPIError m sc d) = m"
| "exn_str (TimeoutException m) = m"
| "exn_str (NetworkError m) = m"
| "exn_str (HTTPStatusError m sc body) = m"
| "exn_str (RetryError e) = ''RetryError''"
| "exn_str (CircuitBreakerError m) = m"
| "exn_str (LibError cls m) = m"

text \<open>
  \<open>ExternalAPIError.__init__\<close> stores the service under the key \<open>service\<close> of the
  details; the two subclasses fix the service.
\<close>

fun dict_set :: "string \<Rightarrow> string \<Rightarrow> details \<Rightarrow> details" where
  "dict_set k v [] = [(k, v)]"
| "dict_set k v ((k', v') # d) = (if k' = k then (k, v) # d else (k', v') # dict_set k v d)"

definition mk_ExternalAPIError :: "string \<Rightarrow> string \<Rightarrow> nat \<Rightarrow> details \<Rightarrow> exn" where
  "mk_ExternalAPIError m svc sc d = ExternalAPIError m svc sc (dict_set ''service'' svc d)"

definition mk_CXoneAPIError :: "string \<Rightarrow> nat \<Rightarrow> details \<Rightarrow> exn" where
  "mk_CXoneAPIError m sc d = CXoneAPIError m sc (dict_set ''service'' ''CXone'' d)"

definition mk_WeChatAPIError :: "string \<Rightarrow> nat \<Rightarrow> details \<Rightarrow> exn" where
  "mk_WeChatAPIError m sc d = WeChatAPIError m sc (dict_set ''service'' ''WeChat'' d)"

text \<open>
  The global exception handlers of app/main.py: an \<open>ApplicationError\<close> answers with its
  own status code, any other exception with 500.
\<close>

fun status_code_of :: "exn \<Rightarrow> nat" where
  "status_code_of (ValidationError m) = 400"
| "status_code_of (AuthenticationError m) = 401"
| "status_code_of (MessageProcessingError m) = 422"
| "status_code_of (ExternalAPIError m svc sc d) = sc"
| "status_code_of (CXoneAPIError m sc d) = sc"
| "status_code_of (WeChatAPIError m sc d) = sc"
| "status_code_of e = 500"

section \<open>Python values and their string forms\<close>

text \<open>Decimal rendering of an integer, as \<open>str\<close> and f-strings give it.\<close>

fun show_nat :: "nat \<Rightarrow> string" where
  "show_nat n = (if n < 10 then [char_of (48 + n)]
                 else show_nat (n div 10) @ [char_of (48 + n mod 10)])"

declare show_nat.simps [simp del]

definition show_int :: "int \<Rightarrow> string" where
  "show_int i = (if i < 0 then CHR ''-'' # show_nat (nat (- i)) else show_nat (nat i))"

text \<open>
  The values a JSON body puts under \<open>metadata\<close> (\<open>Dict[str, Any]\<close>): null, booleans,
  integers, strings, arrays and objects. JSON numbers with a fraction (Python floats)
  are outside this model.
\<close>

datatype pyval =
    PNone
  | PBool bool
  | PInt int
  | PStr string
  | PList "pyval list"
  | PDict "(string \<times> pyval) list"

text \<open>Python truthiness (\<open>if v:\<close>).\<close>

fun truthy :: "pyval \<Rightarrow> bool" where
  "truthy PNone = False"
| "truthy (PBool b) = b"
| "truthy (PInt i) = (i \<noteq> 0)"
| "truthy (PStr s) = (s \<noteq> [])"
| "truthy (PList xs) = (xs \<noteq> [])"
| "truthy (PDict kvs) = (kvs \<noteq> [])"

fun join :: "string \<Rightarrow> string list \<Rightarrow> string" where
  "join sep [] = []"
| "join sep [x] = x"
| "join sep (x # y # ys) = x @ sep @ join sep (y # ys)"

text \<open>
  \<open>str(v)\<close>. The elements of a list and the items of a dict are rendered by \<open>repr\<close>,
  a built-in taken as the parameter \<open>rp\<close>.
\<close>

fun py_str :: "(pyval \<Rightarrow> string) \<Rightarrow> pyval \<Rightarrow> string" where
  "py_str rp PNone = ''None''"
| "py_str rp (PBool b) = (if b then ''True'' else ''False'')"
| "py_str rp (PInt i) = show_int i"
| "py_str rp (PStr s) = s"
| "py_str rp (PList xs) = ''['' @ join '', '' (map rp xs) @ '']''"
| "py_str rp (PDict kvs) =
     ''{'' @ join '', '' (map (\<lambda>(k, v). rp (PStr k) @ '': '' @ rp v) kvs) @ ''}''"

text \<open>Truthiness of an \<open>Optional[str]\<close>: neither \<open>None\<close> nor the empty string.\<close>

fun nonempty :: "string option \<Rightarrow> bool" where
  "nonempty None = False"
| "nonempty (Some s) = (s \<noteq> [])"

section \<open>Payload normalizer (app/models/messages.py)\<close>

record ThreadInfo =
  thread_idOnExternalPlatform :: "string option"

record MessageContent =
  message_text :: "string option"
  message_type :: "string option"
  message_content :: "string option"

record RecipientInfo =
  recipient_idOnExternalPlatform :: "string option"

text \<open>
  The top-level fields \<open>text\<close>, \<open>content\<close>, \<open>externalId\<close>, \<open>openid\<close> carry the prefix
  \<open>top_\<close>. \<open>metadata\<close> is the list of the dict's items (keys distinct).
\<close>

record CXoneMessagePayload =
  thread :: "ThreadInfo option"
  recipient :: "RecipientInfo option"
  message :: "MessageContent option"
  top_text :: "string option"
  top_content :: "string option"
  top_externalId :: "string option"
  top_openid :: "string option"
  metadata :: "(string \<times> pyval) list option"

text \<open>The validators: \<open>validate_openid\<close>, \<open>validate_text_length\<close> and \<open>max_length\<close>.\<close>

definition validate_openid :: "string option \<Rightarrow> bool" where
  "validate_openid v = (case v of None \<Rightarrow> True | Some s \<Rightarrow> \<not> (s \<noteq> [] \<and> length s > 128))"

definition validate_text_length :: "string option \<Rightarrow> bool" where
  "validate_text_length v =
     (case v of None \<Rightarrow> True | Some s \<Rightarrow> \<not> (s \<noteq> [] \<and> length s > 10000))"

definition max_length :: "nat \<Rightarrow> string option \<Rightarrow> bool" where
  "max_length n v = (case v of None \<Rightarrow> True | Some s \<Rightarrow> length s \<le> n)"

definition validate_payload :: "CXoneMessagePayload \<Rightarrow> bool" where
  "validate_payload p =
     ((case thread p of None \<Rightarrow> True
         | Some t \<Rightarrow> validate_openid (thread_idOnExternalPlatform t)) \<and>
      (case message p of None \<Rightarrow> True
         | Some m \<Rightarrow> validate_text_length (message_text m) \<and>
                    validate_text_length (message_content m)) \<and>
      max_length 10000 (top_text p) \<and>
      max_length 10000 (top_content p))"

text \<open>
  \<open>get_openid\<close>: five guarded returns in the order of the source. A model instance
  (\<open>self.thread\<close>, \<open>self.recipient\<close>) is truthy whenever it is not \<open>None\<close>; an empty
  \<open>metadata\<close> dict is falsy.
\<close>

definition get_openid :: "(pyval \<Rightarrow> string) \<Rightarrow> CXoneMessagePayload \<Rightarrow> string option" where
  "get_openid rp p =
     (if (case thread p of None \<Rightarrow> False
            | Some t \<Rightarrow> nonempty (thread_idOnExternalPlatform t))
      then (case thread p of None \<Rightarrow> None | Some t \<Rightarrow> thread_idOnExternalPlatform t)
      else if (case recipient p of None \<Rightarrow> False
                 | Some r \<Rightarrow> nonempty (recipient_idOnExternalPlatform r))
      then (case recipient p of None \<Rightarrow> None | Some r \<Rightarrow> recipient_idOnExternalPlatform r)
      else if nonempty (top_externalId p) then top_externalId p
      else if (case metadata p of None \<Rightarrow> False | Some md \<Rightarrow>
                 md \<noteq> [] \<and> (case map_of md ''openid'' of None \<Rightarrow> False | Some v \<Rightarrow> truthy v))
      then (case metadata p of None \<Rightarrow> None | Some md \<Rightarrow>
              (case map_of md ''openid'' of None \<Rightarrow> None | Some v \<Rightarrow> Some (py_str rp v)))
      else if nonempty (top_openid p) then top_openid p
      else None)"

definition get_text :: "CXoneMessagePayload \<Rightarrow> string option" where
  "get_text p =
     (if (case message p of None \<Rightarrow> False | Some m \<Rightarrow> nonempty (message_text m))
      then (case message p of None \<Rightarrow> None | Some m \<Rightarrow> message_text m)
      else if (case message p of None \<Rightarrow> False | Some m \<Rightarrow> nonempty (message_content m))
      then (case message p of None \<Rightarrow> None | Some m \<Rightarrow> message_content m)
      else if nonempty (top_text p) then top_text p
      else if nonempty (top_content p) then top_content p
      else None)"

section \<open>Messaging-platform sender (app/clients/wechat_client.py)\<close>

text \<open>
  \<open>WeChatClientWrapper.send_text_message\<close>. The wechatpy call
  \<open>self.client.message.send_text\<close> is the parameter \<open>api\<close>: it returns a result or
  raises. The first component of the result counts the calls of \<open>api\<close>. Lengths are
  lengths of the string as the model holds it (one \<open>char\<close> per character).
\<close>

definition wrap_wechat_error :: "string \<Rightarrow> exn \<Rightarrow> exn" where
  "wrap_wechat_error openid e =
     (case e of
        WeChatAPIError m sc d \<Rightarrow> e
      | _ \<Rightarrow> mk_WeChatAPIError (''Failed to send message to WeChat: '' @ exn_str e) 502
              [(''openid'', openid), (''error'', exn_str e)])"

definition wrapper_send_text_message ::
  "(string \<Rightarrow> string \<Rightarrow> lib_error + 'r) \<Rightarrow> string \<Rightarrow> string \<Rightarrow> nat \<times> (exn + 'r)" where
  "wrapper_send_text_message api openid content =
     (if openid = [] then (0, Inl (MessageProcessingError ''openid is required''))
      else if content = [] then
        (0, Inl (MessageProcessingError ''message content is required''))
      else if length content > 10000 then
        (0, Inl (MessageProcessingError ''message content exceeds 10000 characters''))
      else (case api openid content of
              Inr result \<Rightarrow> (1, Inr result)
            | Inl e \<Rightarrow> (1, Inl (wrap_wechat_error openid (lift_lib e)))))"

text \<open>
  The module-level \<open>send_text_message\<close>: in mock mode \<open>get_wechat_client\<close> hands out a
  wrapper around \<open>MockWeChatClient\<close>, which records the message and returns a fixed
  acknowledgement (\<open>mock\<close>); otherwise the wrapper above.
\<close>

definition send_text_message ::
  "bool \<Rightarrow> (string \<Rightarrow> string \<Rightarrow> 'r) \<Rightarrow> (string \<Rightarrow> string \<Rightarrow> lib_error + 'r) \<Rightarrow>
   string \<Rightarrow> string \<Rightarrow> nat \<times> (exn + 'r)" where
  "send_text_message mock_mode mock api openid content =
     (if mock_mode then (0, Inr (mock openid content))
      else wrapper_send_text_message api openid content)"

section \<open>Engagement-platform inbound API (app/routes/byoc.py)\<close>

definition startswith :: "string \<Rightarrow> string \<Rightarrow> bool" where
  "startswith s pre = (take (length pre) s = pre)"

text \<open>\<open>s.split(c)\<close>: the pieces of \<open>s\<close> between the occurrences of \<open>c\<close>.\<close>

fun split_on :: "char \<Rightarrow> string \<Rightarrow> string list" where
  "split_on c [] = [[]]"
| "split_on c (x # xs) =
     (if x = c then [] # split_on c xs
      else (case split_on c xs of
              [] \<Rightarrow> [[x]]
            | w # ws \<Rightarrow> (x # w) # ws))"

text \<open>
  \<open>get_bearer_token\<close>. \<open>verify_token\<close> (JWT decoding, app/auth.py over PyJWT) is the
  predicate \<open>verify\<close>: true when the token decodes to a payload.
\<close>

definition get_bearer_token :: "(string \<Rightarrow> bool) \<Rightarrow> string option \<Rightarrow> exn + string" where
  "get_bearer_token verify authorization =
     (case authorization of
        None \<Rightarrow> Inl (AuthenticationError ''Missing or invalid Authorization header'')
      | Some a \<Rightarrow>
          if a = [] \<or> \<not> startswith a ''Bearer '' then
            Inl (AuthenticationError ''Missing or invalid Authorization header'')
          else (case split_on CHR '' '' a of
                  p0 # token # rest \<Rightarrow>
                    if token = [] then Inl (AuthenticationError ''Token is empty'')
                    else if \<not> verify token then
                      Inl (AuthenticationError ''Invalid or expired token'')
                    else Inr token
                | _ \<Rightarrow> Inl (LibError ''IndexError'' ''list index out of range'')))"

record MessageResponse =
  idOnExternalPlatform :: string

text \<open>
  The route \<open>post_message\<close>, after the dependency \<open>get_bearer_token\<close> has returned.
  \<open>request_json\<close> is the outcome of \<open>await request.json()\<close> read into the fields of the
  model (\<open>Inl\<close>: the body is not JSON or does not fit the field types); the validators
  run on it. \<open>send\<close> is the imported \<open>send_text_message\<close>, \<open>uuid4\<close> the generated id.
  The first component lists the log events in order. \<open>not openid\<close> holds for \<open>None\<close>
  and for the empty string.
\<close>

definition forward_to_wechat ::
  "(string \<Rightarrow> string \<Rightarrow> exn + 'r) \<Rightarrow> string \<Rightarrow> string \<Rightarrow> string \<Rightarrow>
   string list \<times> (exn + MessageResponse)" where
  "forward_to_wechat send uuid4 openid text =
     (case send openid text of
        Inr result \<Rightarrow>
          ([''received_cxone_message'', ''message_sent_to_wechat'', ''message_processed''],
           Inr \<lparr>idOnExternalPlatform = uuid4\<rparr>)
      | Inl (WeChatAPIError m sc d) \<Rightarrow>
          ([''received_cxone_message'', ''failed_to_send_to_wechat'', ''message_processed''],
           Inr \<lparr>idOnExternalPlatform = uuid4\<rparr>)
      | Inl e \<Rightarrow> ([''received_cxone_message''], Inl e))"

definition no_openid :: "string list \<times> (exn + MessageResponse)" where
  "no_openid =
     ([''received_cxone_message''],
      Inl (MessageProcessingError ''Could not extract openid from payload''))"

definition no_text :: "string list \<times> (exn + MessageResponse)" where
  "no_text =
     ([''received_cxone_message''],
      Inl (MessageProcessingError ''Could not extract message text from payload''))"

definition post_message ::
  "(pyval \<Rightarrow> string) \<Rightarrow> (string \<Rightarrow> string \<Rightarrow> exn + 'r) \<Rightarrow> string \<Rightarrow> string \<Rightarrow>
   lib_error + CXoneMessagePayload \<Rightarrow> string list \<times> (exn + MessageResponse)" where
  "post_message rp send uuid4 post_id request_json =
     (if post_id = [] \<or> length post_id > 128 then ([], Inl (ValidationError ''Invalid post ID''))
      else (case request_json of
              Inl e \<Rightarrow> ([], Inl (ValidationError ''Invalid request payload''))
            | Inr payload \<Rightarrow>
                if \<not> validate_payload payload then
                  ([], Inl (ValidationError ''Invalid request payload''))
                else (case get_openid rp payload of
                        None \<Rightarrow> no_openid
                      | Some openid \<Rightarrow>
                          if openid = [] then no_openid
                          else (case get_text payload of
                                  None \<Rightarrow> no_text
                                | Some text \<Rightarrow>
                                    if text = [] then no_text
                                    else forward_to_wechat send uuid4 openid text))))"

text \<open>The endpoint: authentication, then the route; a \<open>MessageResponse\<close> answers 200.\<close>

definition byoc_endpoint ::
  "(string \<Rightarrow> bool) \<Rightarrow> (pyval \<Rightarrow> string) \<Rightarrow> (string \<Rightarrow> string \<Rightarrow> exn + 'r) \<Rightarrow> string \<Rightarrow>
   string option \<Rightarrow> string \<Rightarrow> lib_error + CXoneMessagePayload \<Rightarrow> exn + MessageResponse" where
  "byoc_endpoint verify rp send uuid4 authorization post_id request_json =
     (case get_bearer_token verify authorization of
        Inl e \<Rightarrow> Inl e
      | Inr token \<Rightarrow> snd (post_message rp send uuid4 post_id request_json))"

definition byoc_status :: "exn + MessageResponse \<Rightarrow> nat" where
  "byoc_status r = (case r of Inl e \<Rightarrow> status_code_of e | Inr m \<Rightarrow> 200)"

section \<open>Webhook verifier and forwarding orchestrator (app/routes/wechat.py)\<close>



record http_response =
  status :: nat
  content :: string
  media_type :: "string option"













section \<open>Resilient HTTP transport (app/clients/base.py)\<close>

subsection \<open>The circuit breaker\<close>

text \<open>
  Modelled from the spec: \<open>pybreaker.CircuitBreaker\<close> is third-party code that is not
  under src/. The spec (3, 4.1) gives the state machine: Closed, Open, HalfOpen; the
  breaker opens when the consecutive-failure count reaches the threshold; an open
  breaker rejects calls until the cool-down has elapsed, then lets one trial call
  through as HalfOpen; a success closes it and resets the count, a failure in HalfOpen
  opens it again with a fresh cool-down. \<open>current_state\<close> reads the stored state.
  A failure is an exception raised by the wrapped function; time is in seconds.
\<close>

datatype circuit_state = Closed | Open | HalfOpen

record circuit_breaker =
  current_state :: circuit_state
  fail_counter :: nat
  opened_at :: nat
  fail_max :: nat
  timeout_duration :: nat


text \<open>What one call of \<open>self.client.request\<close> does: it answers, or raises.\<close>

record httpx_response =
  resp_status_code :: nat
  resp_text :: string
  resp_error_message :: string

datatype net_result =
    Answered httpx_response
  | TimedOut string
  | NetFailed string
  | Crashed lib_error

fun raised :: "net_result \<Rightarrow> bool" where
  "raised (Answered r) = False"
| "raised r = True"

definition on_result :: "circuit_breaker \<Rightarrow> nat \<Rightarrow> net_result \<Rightarrow> circuit_breaker" where
  "on_result cb now r =
     (if raised r then
        (if current_state cb = HalfOpen \<or> fail_max cb \<le> Suc (fail_counter cb) then
           cb\<lparr>current_state := Open, fail_counter := Suc (fail_counter cb), opened_at := now\<rparr>
         else cb\<lparr>fail_counter := Suc (fail_counter cb)\<rparr>)
      else cb\<lparr>current_state := Closed, fail_counter := 0\<rparr>)"

text \<open>
  \<open>call_async\<close>: \<open>None\<close> when the breaker rejects the call without running the
  wrapped function, otherwise the function's own outcome.
\<close>

definition call_async ::
  "circuit_breaker \<Rightarrow> nat \<Rightarrow> net_result \<Rightarrow> circuit_breaker \<times> net_result option" where
  "call_async cb now r =
     (if current_state cb = Open then
        (if now < opened_at cb + timeout_duration cb then (cb, None)
         else (on_result (cb\<lparr>current_state := HalfOpen\<rparr>) now r, Some r))
      else (on_result cb now r, Some r))"

subsection \<open>BaseHTTPClient\<close>

text \<open>
  The client: its configuration, its breaker, and two ghost fields of the model: the
  number of calls of \<open>self.client.request\<close> made so far and the clock.
\<close>

record client =
  base_url :: string
  timeout :: nat
  max_retries :: nat
  circuit_breaker :: circuit_breaker
  requests_sent :: nat
  clock :: nat






text \<open>\<open>response.raise_for_status()\<close>: raises for status codes of 400 and above.\<close>

definition raise_for_status :: "httpx_response \<Rightarrow> exn + httpx_response" where
  "raise_for_status r =
     (if 400 \<le> resp_status_code r then
        Inl (HTTPStatusError (resp_error_message r) (resp_status_code r) (resp_text r))
      else Inr r)"

text \<open>The \<open>except\<close> clauses of \<open>_make_request\<close>, in the order of the source.\<close>

definition except_clauses :: "client \<Rightarrow> exn \<Rightarrow> exn" where
  "except_clauses c e =
     (case e of
        HTTPStatusError m sc txt \<Rightarrow>
          if 400 \<le> sc \<and> sc < 500 then
            mk_ExternalAPIError (''Client error from '' @ base_url c @ '': '' @ show_nat sc)
              (base_url c) sc [(''response'', take 500 txt)]
          else e
      | TimeoutException m \<Rightarrow> e
      | NetworkError m \<Rightarrow> e
      | RetryError last_exc \<Rightarrow>
          mk_ExternalAPIError
            (''Request to '' @ base_url c @ '' failed after '' @ show_nat (max_retries c)
               @ '' retries'')
            (base_url c) 502 [(''last_exception'', exn_str last_exc)]
      | _ \<Rightarrow> e)"

text \<open>
  \<open>_make_request\<close>, one attempt. \<open>net i\<close> is the outcome of the \<open>i\<close>-th call of
  \<open>self.client.request\<close> (counted from 0). The guard raises outside every \<open>except\<close>
  clause's reach: none of them names \<open>ExternalAPIError\<close>.
\<close>

definition make_request :: "(nat \<Rightarrow> net_result) \<Rightarrow> client \<Rightarrow> client \<times> (exn + httpx_response)" where
  "make_request net c =
     (if current_state (circuit_breaker c) = Open then
        (c, Inl (mk_ExternalAPIError (''Circuit breaker is open for '' @ base_url c)
                   (base_url c) 503 []))
      else (case call_async (circuit_breaker c) (clock c) (net (requests_sent c)) of
              (cb, None) \<Rightarrow>
                (c\<lparr>circuit_breaker := cb\<rparr>, Inl (CircuitBreakerError ''circuit breaker open''))
            | (cb, Some r) \<Rightarrow>
                (c\<lparr>circuit_breaker := cb, requests_sent := Suc (requests_sent c)\<rparr>,
                 (case r of
                    Answered resp \<Rightarrow>
                      (case raise_for_status resp of
                         Inl e \<Rightarrow> Inl (except_clauses c e)
                       | Inr ok \<Rightarrow> Inr ok)
                  | TimedOut m \<Rightarrow> Inl (except_clauses c (TimeoutException m))
                  | NetFailed m \<Rightarrow> Inl (except_clauses c (NetworkError m))
                  | Crashed e \<Rightarrow> Inl (except_clauses c (lift_lib e))))))"

subsection \<open>The retry decorator\<close>

text \<open>
  The arguments of \<open>@retry\<close> as the source gives them (tenacity is not under src/):
  \<open>stop_after_attempt(n)\<close> stops once the attempt number has reached \<open>n\<close>;
  \<open>retry_if_exception_type\<close> retries a \<open>TimeoutException\<close> or a \<open>NetworkError\<close> and
  nothing else; \<open>reraise=True\<close> raises the last attempt's own exception when the
  attempts are used up; \<open>wait_exponential(multiplier=1, min=2, max=10)\<close> is the
  backoff of the spec (4.1): 2 seconds, doubling, capped at 10.
\<close>

definition retry_if_exception_type :: "exn \<Rightarrow> bool" where
  "retry_if_exception_type e =
     (case e of TimeoutException m \<Rightarrow> True | NetworkError m \<Rightarrow> True | _ \<Rightarrow> False)"

definition stop_after_attempt :: "nat \<Rightarrow> nat \<Rightarrow> bool" where
  "stop_after_attempt n attempt_number = (n \<le> attempt_number)"

definition wait_exponential :: "nat \<Rightarrow> nat" where
  "wait_exponential attempt_number = max 2 (min (1 * 2 ^ attempt_number) 10)"

function retrying ::
  "nat \<Rightarrow> nat \<Rightarrow> (nat \<Rightarrow> net_result) \<Rightarrow> client \<Rightarrow> client \<times> (exn + httpx_response)" where
  "retrying n attempt_number net c =
     (case make_request net c of
        (c', Inr resp) \<Rightarrow> (c', Inr resp)
      | (c', Inl e) \<Rightarrow>
          if retry_if_exception_type e \<and> \<not> stop_after_attempt n attempt_number then
            retrying n (Suc attempt_number) net
              (c'\<lparr>clock := clock c' + wait_exponential attempt_number\<rparr>)
          else (c', Inl e))"
  by pat_completeness auto
termination
  by (relation "measure (\<lambda>(n, k, net, c). n - k)") (auto simp: stop_after_attempt_def)

declare retrying.simps [simp del]

text \<open>\<open>_request_with_retry\<close>: the decorated function is built and called once.\<close>

definition request_with_retry ::
  "(nat \<Rightarrow> net_result) \<Rightarrow> client \<Rightarrow> client \<times> (exn + httpx_response)" where
  "request_with_retry net c = retrying (max_retries c) 1 net c"

section \<open>Engagement-platform poster (app/clients/cxone_client.py)\<close>

definition wrap_cxone_error :: "string \<Rightarrow> exn \<Rightarrow> exn" where
  "wrap_cxone_error openid e =
     (case e of
        CXoneAPIError m sc d \<Rightarrow> e
      | _ \<Rightarrow> mk_CXoneAPIError (''Failed to post message to CXone: '' @ exn_str e) 502
              [(''openid'', openid), (''error'', exn_str e)])"

text \<open>
  \<open>CXoneClient.post_message\<close>. \<open>json\<close> is \<open>response.json()\<close>, which returns the decoded
  body or raises. The URL, the envelope and the headers are built from the arguments
  and the settings; the outcome of the request is \<open>net\<close>'s.
\<close>

definition cxone_post_message ::
  "(string \<Rightarrow> lib_error + 'j) \<Rightarrow> (nat \<Rightarrow> net_result) \<Rightarrow> client \<Rightarrow> string \<Rightarrow> string \<Rightarrow>
   client \<times> (exn + 'j)" where
  "cxone_post_message json net c openid text =
     (if openid = [] then (c, Inl (MessageProcessingError ''openid is required''))
      else if text = [] then (c, Inl (MessageProcessingError ''message text is required''))
      else (case request_with_retry net c of
              (c', Inl e) \<Rightarrow> (c', Inl (wrap_cxone_error openid e))
            | (c', Inr resp) \<Rightarrow>
                (case json (resp_text resp) of
                   Inl e \<Rightarrow> (c', Inl (wrap_cxone_error openid (lift_lib e)))
                 | Inr result \<Rightarrow> (c', Inr result))))"

section \<open>The extraction order in the words of the spec\<close>

text \<open>
  The candidates of the spec (4.2), each read through its optional parent, and the
  rule "first match wins", a candidate matching when it is present and non-empty
  (for \<open>metadata.openid\<close>: truthy, then coerced to a string).
\<close>

definition thread_id :: "CXoneMessagePayload \<Rightarrow> string option" where
  "thread_id p = (case thread p of None \<Rightarrow> None | Some t \<Rightarrow> thread_idOnExternalPlatform t)"

definition recipient_id :: "CXoneMessagePayload \<Rightarrow> string option" where
  "recipient_id p =
     (case recipient p of None \<Rightarrow> None | Some r \<Rightarrow> recipient_idOnExternalPlatform r)"

definition metadata_openid :: "(pyval \<Rightarrow> string) \<Rightarrow> CXoneMessagePayload \<Rightarrow> string option" where
  "metadata_openid rp p =
     (case metadata p of
        None \<Rightarrow> None
      | Some md \<Rightarrow> (case map_of md ''openid'' of
                     None \<Rightarrow> None
                   | Some v \<Rightarrow> if truthy v then Some (py_str rp v) else None))"

definition msg_text :: "CXoneMessagePayload \<Rightarrow> string option" where
  "msg_text p = (case message p of None \<Rightarrow> None | Some m \<Rightarrow> message_text m)"

definition msg_content_of :: "CXoneMessagePayload \<Rightarrow> string option" where
  "msg_content_of p = (case message p of None \<Rightarrow> None | Some m \<Rightarrow> message_content m)"

fun first_match :: "string option list \<Rightarrow> string option" where
  "first_match [] = None"
| "first_match (c # cs) = (if nonempty c then c else first_match cs)"

section \<open>Concrete inputs\<close>

definition empty_payload :: CXoneMessagePayload where
  "empty_payload =
     \<lparr>thread = None, recipient = None, message = None, top_text = None, top_content = None,
      top_externalId = None, top_openid = None, metadata = None\<rparr>"

definition payload_all_ids :: CXoneMessagePayload where
  "payload_all_ids =
     \<lparr>thread = Some \<lparr>thread_idOnExternalPlatform = Some ''u1''\<rparr>,
      recipient = Some \<lparr>recipient_idOnExternalPlatform = Some ''u2''\<rparr>,
      message = Some \<lparr>message_text = Some ''hi'', message_type = Some ''text'',
                       message_content = Some ''other''\<rparr>,
      top_text = Some ''t3'', top_content = Some ''t4'',
      top_externalId = Some ''u3'', top_openid = Some ''u5'',
      metadata = Some [(''openid'', PInt 4)]\<rparr>"

definition payload_metadata_openid :: CXoneMessagePayload where
  "payload_metadata_openid =
     empty_payload\<lparr>top_externalId := Some [], top_openid := Some ''u5'',
                    metadata := Some [(''lang'', PStr ''en''), (''openid'', PInt 42)]\<rparr>"

definition payload_empty_thread_id :: CXoneMessagePayload where
  "payload_empty_thread_id =
     empty_payload\<lparr>thread := Some \<lparr>thread_idOnExternalPlatform = Some []\<rparr>,
                    top_externalId := Some ''u2''\<rparr>"






definition failing_send :: "string \<Rightarrow> string \<Rightarrow> exn + unit" where
  "failing_send openid text =
     Inl (mk_WeChatAPIError ''Failed to send message to WeChat: timeout'' 502
            [(''openid'', openid), (''error'', ''timeout'')])"

section \<open>Consecutive attempts in the words of the spec\<close>

text \<open>
  A run of attempts on one transport: before each attempt the clock advances by the
  given number of seconds (a backoff, or the time between two calls).
\<close>

fun attempts :: "(nat \<Rightarrow> net_result) \<Rightarrow> nat list \<Rightarrow> client \<Rightarrow> client" where
  "attempts net [] c = c"
| "attempts net (w # ws) c = attempts net ws (fst (make_request net (c\<lparr>clock := clock c + w\<rparr>)))"

section \<open>Concrete transports\<close>





section \<open>Properties of the payload normalizer\<close>

lemma show_nat_nonempty: "show_nat n \<noteq> []"
  by (subst show_nat.simps) simp

lemma show_int_nonempty: "show_int i \<noteq> []"
  by (simp add: show_int_def show_nat_nonempty)

lemma py_str_truthy: "truthy v \<Longrightarrow> py_str rp v \<noteq> []"
  by (cases v) (simp_all add: show_int_nonempty)

lemma nonempty_metadata_openid:
  "nonempty (metadata_openid rp p) =
     (case metadata p of None \<Rightarrow> False | Some md \<Rightarrow>
        md \<noteq> [] \<and> (case map_of md ''openid'' of None \<Rightarrow> False | Some v \<Rightarrow> truthy v))"
  by (auto simp: metadata_openid_def py_str_truthy split: option.splits)

lemma get_openid_first_match:
  "get_openid rp p =
     first_match [thread_id p, recipient_id p, top_externalId p, metadata_openid rp p,
                  top_openid p]"
  unfolding get_openid_def first_match.simps nonempty_metadata_openid
  by (simp add: thread_id_def recipient_id_def metadata_openid_def split: option.splits)

lemma get_text_first_match:
  "get_text p = first_match [msg_text p, msg_content_of p, top_text p, top_content p]"
  unfolding get_text_def first_match.simps
  by (simp add: msg_text_def msg_content_of_def split: option.splits)

lemma first_match_nonempty: "first_match cs \<noteq> Some []"
  by (induction cs) (auto split: if_splits)

lemma get_openid_never_empty: "get_openid rp p \<noteq> Some []"
  unfolding get_openid_first_match by (rule first_match_nonempty)

lemma get_text_never_empty: "get_text p \<noteq> Some []"
  unfolding get_text_first_match by (rule first_match_nonempty)

lemma nonempty_get_openid: "nonempty (get_openid rp p) = (get_openid rp p \<noteq> None)"
  using get_openid_never_empty [of rp p] by (cases "get_openid rp p") auto

lemma nonempty_get_text: "nonempty (get_text p) = (get_text p \<noteq> None)"
  using get_text_never_empty [of p] by (cases "get_text p") auto

text \<open>
  C3 (as amended). Extraction follows a fixed first-match-wins priority in which a
  candidate matches when it is present and non-empty: the external id is the first
  such value among \<open>thread.idOnExternalPlatform\<close>, \<open>recipient.idOnExternalPlatform\<close>,
  top-level \<open>externalId\<close>, \<open>metadata.openid\<close> (truthy, coerced to a string) and top-level
  \<open>openid\<close>; the text is the first such value among \<open>message.text\<close>, \<open>message.content\<close>,
  top-level \<open>text\<close> and top-level \<open>content\<close>. In particular, whenever
  \<open>thread.idOnExternalPlatform\<close> is present and non-empty, it is chosen over every
  other id-bearing field.
\<close>

theorem extraction_priority:
  "get_openid rp p =
     first_match [thread_id p, recipient_id p, top_externalId p, metadata_openid rp p,
                  top_openid p] \<and>
   get_text p = first_match [msg_text p, msg_content_of p, top_text p, top_content p] \<and>
   (\<forall>t. thread_id p = Some t \<and> t \<noteq> [] \<longrightarrow> get_openid rp p = Some t)"
  by (simp add: get_openid_first_match get_text_first_match)

theorem extraction_priority_witness:
  "thread_id payload_all_ids = Some ''u1'' \<and>
   get_openid (\<lambda>v. []) payload_all_ids = Some ''u1'' \<and>
   get_text payload_all_ids = Some ''hi'' \<and>
   get_openid (\<lambda>v. []) payload_metadata_openid = Some ''42''"
proof -
  have m: "show_nat 42 = ''42''"
    by code_simp
  have "get_openid (\<lambda>v. []) payload_metadata_openid = Some ''42''"
    by (simp add: payload_metadata_openid_def empty_payload_def get_openid_def show_int_def m)
  then show ?thesis
    using extraction_priority [of "\<lambda>v. []" payload_all_ids]
    by (simp add: payload_all_ids_def thread_id_def recipient_id_def msg_text_def
        msg_content_of_def)
qed

text \<open>
  C3 as stated fails: a payload whose \<open>thread.idOnExternalPlatform\<close> is present but
  empty, with a top-level \<open>externalId\<close> of \<open>u2\<close>, yields \<open>u2\<close>: the empty thread id is
  skipped, not chosen.
\<close>

theorem present_thread_id_not_chosen:
  "\<not> (\<forall>rp p t. thread_id p = Some t \<longrightarrow> get_openid rp p = Some t)"
proof
  assume "\<forall>rp p t. thread_id p = Some t \<longrightarrow> get_openid rp p = Some t"
  moreover have "thread_id payload_empty_thread_id = Some []"
    by (simp add: payload_empty_thread_id_def empty_payload_def thread_id_def)
  ultimately have "get_openid (\<lambda>v. []) payload_empty_thread_id = Some []"
    by blast
  moreover have "get_openid (\<lambda>v. []) payload_empty_thread_id = Some ''u2''"
    by (simp add: payload_empty_thread_id_def empty_payload_def get_openid_def)
  ultimately show False by simp
qed

text \<open>
  C10. For every payload, \<open>get_openid\<close> and \<open>get_text\<close> return \<open>None\<close> or a non-empty
  string, never the empty string; consequently the route's two "could not extract"
  errors are raised exactly when the extraction yields \<open>None\<close> (the openid check first),
  and when both values are extracted the route goes on to the send.
\<close>

theorem extraction_never_empty:
  assumes "post_id \<noteq> []" and "length post_id \<le> 128" and "validate_payload p"
  shows "get_openid rp p \<noteq> Some [] \<and> get_text p \<noteq> Some [] \<and>
    (get_openid rp p = None \<longrightarrow>
       snd (post_message rp send uuid4 post_id (Inr p)) =
         Inl (MessageProcessingError ''Could not extract openid from payload'')) \<and>
    (get_openid rp p \<noteq> None \<and> get_text p = None \<longrightarrow>
       snd (post_message rp send uuid4 post_id (Inr p)) =
         Inl (MessageProcessingError ''Could not extract message text from payload'')) \<and>
    (\<forall>openid text. get_openid rp p = Some openid \<and> get_text p = Some text \<longrightarrow>
       post_message rp send uuid4 post_id (Inr p) = forward_to_wechat send uuid4 openid text)"
  using assms
  by (auto simp: post_message_def no_openid_def no_text_def
      get_openid_never_empty get_text_never_empty)

theorem extraction_never_empty_witness:
  "validate_payload payload_all_ids \<and>
   get_openid (\<lambda>v. []) payload_all_ids \<noteq> Some [] \<and>
   get_text payload_all_ids \<noteq> Some [] \<and>
   snd (post_message (\<lambda>v. []) (\<lambda>openid text. Inr ()) ''id-1'' ''p1'' (Inr payload_all_ids)) =
     Inr \<lparr>idOnExternalPlatform = ''id-1''\<rparr>"
proof -
  have v: "validate_payload payload_all_ids"
    by (simp add: payload_all_ids_def validate_payload_def validate_openid_def
        validate_text_length_def max_length_def)
  have o: "get_openid (\<lambda>v. []) payload_all_ids = Some ''u1''"
    by (simp add: payload_all_ids_def get_openid_def)
  have t: "get_text payload_all_ids = Some ''hi''"
    by (simp add: payload_all_ids_def get_text_def)
  show ?thesis
    using extraction_never_empty [of "''p1''" payload_all_ids "\<lambda>v. []"
        "\<lambda>openid text. Inr ()" "''id-1''"] v o t
    by (simp add: forward_to_wechat_def)
qed

section \<open>Properties of the webhook handlers\<close>













text \<open>The order is the lexicographic order of the strings: digits sort before letters.\<close>

lemma sorted_concat_example:
  "concat (sort [''token'', ''1700000000'', ''nonce'']) = ''1700000000noncetoken''"
  by code_simp


section \<open>Properties of the engagement-platform inbound API\<close>

text \<open>
  The sender the route imports never raises anything but a \<open>WeChatAPIError\<close> on a
  validated payload: the extracted values pass its local validation, and every
  exception of the library call is wrapped.
\<close>

lemma validated_text_length:
  "validate_payload p \<Longrightarrow> get_text p = Some t \<Longrightarrow> length t \<le> 10000"
  by (auto simp: validate_payload_def get_text_def validate_text_length_def max_length_def
      split: option.splits if_splits)

lemma wrap_wechat_error_class: "\<exists>m sc d. wrap_wechat_error openid e = WeChatAPIError m sc d"
  by (cases e) (simp_all add: wrap_wechat_error_def mk_WeChatAPIError_def)

lemma sender_outcome:
  assumes "validate_payload p" and "get_openid rp p = Some openid" and "get_text p = Some text"
  shows "(\<exists>r. snd (send_text_message mock_mode mock api openid text) = Inr r) \<or>
         (\<exists>m sc d. snd (send_text_message mock_mode mock api openid text) =
                      Inl (WeChatAPIError m sc d))"
proof -
  have o: "openid \<noteq> []" by (metis assms(2) get_openid_never_empty)
  have t: "text \<noteq> []" by (metis assms(3) get_text_never_empty)
  have l: "\<not> 10000 < length text" using validated_text_length [OF assms(1) assms(3)] by simp
  show ?thesis
    using o t l wrap_wechat_error_class
    by (auto simp: send_text_message_def wrapper_send_text_message_def split: sum.splits)
qed

text \<open>
  C7. For every authenticated and validated POST to \<open>/1.0/posts/{id}/messages\<close> from
  which an openid and a text are extracted, the endpoint returns the generated
  \<open>idOnExternalPlatform\<close> with status 200, whether the downstream send returns or raises
  a \<open>WeChatAPIError\<close>; in the latter case the failure is logged
  (\<open>failed_to_send_to_wechat\<close>) and swallowed.
\<close>

theorem downstream_failure_swallowed:
  assumes "get_bearer_token verify authorization = Inr token"
    and "post_id \<noteq> []" and "length post_id \<le> 128"
    and "validate_payload payload"
    and "get_openid rp payload = Some openid" and "get_text payload = Some text"
    and "(\<exists>r. send openid text = Inr r) \<or> (\<exists>m sc d. send openid text = Inl (WeChatAPIError m sc d))"
  shows "byoc_endpoint verify rp send uuid4 authorization post_id (Inr payload) =
           Inr \<lparr>idOnExternalPlatform = uuid4\<rparr> \<and>
         byoc_status (byoc_endpoint verify rp send uuid4 authorization post_id (Inr payload)) = 200 \<and>
         (\<forall>m sc d. send openid text = Inl (WeChatAPIError m sc d) \<longrightarrow>
            fst (post_message rp send uuid4 post_id (Inr payload)) =
              [''received_cxone_message'', ''failed_to_send_to_wechat'', ''message_processed''])"
proof -
  have o: "nonempty (get_openid rp payload)"
    unfolding nonempty_get_openid using assms(5) by simp
  have t: "nonempty (get_text payload)"
    unfolding nonempty_get_text using assms(6) by simp
  show ?thesis
    using assms o t
    by (auto simp: byoc_endpoint_def byoc_status_def post_message_def forward_to_wechat_def)
qed

theorem downstream_failure_swallowed_witness:
  "get_bearer_token (\<lambda>t. t = ''tok'') (Some ''Bearer tok'') = Inr ''tok'' \<and>
   byoc_endpoint (\<lambda>t. t = ''tok'') (\<lambda>v. []) failing_send ''id-1'' (Some ''Bearer tok'') ''p1''
     (Inr payload_all_ids) = Inr \<lparr>idOnExternalPlatform = ''id-1''\<rparr> \<and>
   fst (post_message (\<lambda>v. []) failing_send ''id-1'' ''p1'' (Inr payload_all_ids)) =
     [''received_cxone_message'', ''failed_to_send_to_wechat'', ''message_processed'']"
proof -
  have a: "get_bearer_token (\<lambda>t. t = ''tok'') (Some ''Bearer tok'') = Inr ''tok''"
    by (simp add: get_bearer_token_def startswith_def)
  have v: "validate_payload payload_all_ids"
    by (simp add: payload_all_ids_def validate_payload_def validate_openid_def
        validate_text_length_def max_length_def)
  have o: "get_openid (\<lambda>v. []) payload_all_ids = Some ''u1''"
    by (simp add: payload_all_ids_def get_openid_def)
  have t: "get_text payload_all_ids = Some ''hi''"
    by (simp add: payload_all_ids_def get_text_def)
  have s: "(\<exists>r. failing_send ''u1'' ''hi'' = Inr r) \<or>
           (\<exists>m sc d. failing_send ''u1'' ''hi'' = Inl (WeChatAPIError m sc d))"
    by (simp add: failing_send_def mk_WeChatAPIError_def)
  have f: "failing_send ''u1'' ''hi'' = Inl (WeChatAPIError
      ''Failed to send message to WeChat: timeout'' 502
      (dict_set ''service'' ''WeChat'' [(''openid'', ''u1''), (''error'', ''timeout'')]))"
    by (simp add: failing_send_def mk_WeChatAPIError_def)
  show ?thesis
    using downstream_failure_swallowed [of "\<lambda>t. t = ''tok''" "Some ''Bearer tok''" "''tok''"
        "''p1''" payload_all_ids "\<lambda>v. []" "''u1''" "''hi''" failing_send "''id-1''"] a v o t s f
    by simp
qed

section \<open>Properties of the transport\<close>



lemma make_request_open:
  "current_state (circuit_breaker c) = Open \<Longrightarrow>
   make_request net c =
     (c, Inl (ExternalAPIError (''Circuit breaker is open for '' @ base_url c) (base_url c) 503
                [(''service'', base_url c)]))"
  by (simp add: make_request_def mk_ExternalAPIError_def)









text \<open>
  The guard of \<open>_make_request\<close> reads the stored state only, and an open breaker is
  never called: once open, the transport sends nothing, however much time passes.
  The breaker on its own would let a trial call through after the cool-down.
\<close>

lemma attempts_stay_open:
  "current_state (circuit_breaker c) = Open \<Longrightarrow>
   attempts net ws c = c\<lparr>clock := clock c + sum_list ws\<rparr>"
  by (induction ws arbitrary: c) (simp_all add: make_request_open add.assoc)

lemma breaker_trial_after_cooldown:
  "current_state cb = Open \<Longrightarrow> opened_at cb + timeout_duration cb \<le> now \<Longrightarrow>
   snd (call_async cb now r) = Some r"
  by (simp add: call_async_def)

text \<open>
  The error of the \<open>except RetryError\<close> clause ("failed after N retries", 502) is never
  the outcome of \<open>_request_with_retry\<close>: the clause sits inside the retried function,
  where no \<open>RetryError\<close> is raised, and \<open>reraise=True\<close> hands the caller the last
  attempt's exception.
\<close>

lemma make_request_not_502:
  "snd (make_request net c) \<noteq> Inl (ExternalAPIError m svc 502 d)"
proof (cases "current_state (circuit_breaker c) = Open")
  case True
  then show ?thesis by (simp add: make_request_open)
next
  case False
  have l: "except_clauses c (lift_lib e) \<noteq> ExternalAPIError m svc 502 d" for e
    by (cases e) (simp add: except_clauses_def)
  show ?thesis
    using False l
    by (cases "net (requests_sent c)")
       (auto simp: make_request_def call_async_def raise_for_status_def except_clauses_def
          mk_ExternalAPIError_def split: sum.splits)
qed

lemma retrying_not_502:
  "snd (retrying n k net c) \<noteq> Inl (ExternalAPIError m svc 502 d)"
proof (induction n k net c rule: retrying.induct)
  case (1 n k net c)
  obtain c' r where mr: "make_request net c = (c', r)" by (cases "make_request net c")
  have r502: "r \<noteq> Inl (ExternalAPIError m svc 502 d)"
    using make_request_not_502 [of net c m svc d] mr by simp
  show ?case
  proof (cases r)
    case (Inr resp)
    then show ?thesis using mr by (simp add: retrying.simps)
  next
    case (Inl e)
    show ?thesis
    proof (cases "retry_if_exception_type e \<and> \<not> stop_after_attempt n k")
      case True
      then show ?thesis
        using "1.IH" [OF mr [symmetric] Inl True] mr Inl
        by (simp add: retrying.simps [of n k net c])
    next
      case False
      then show ?thesis using mr Inl r502 by (auto simp: retrying.simps [of n k net c])
    qed
  qed
qed

lemma exhausted_error_never_raised:
  "snd (request_with_retry net c) \<noteq>
     Inl (ExternalAPIError
            (''Request to '' @ base_url c @ '' failed after '' @ show_nat (max_retries c)
               @ '' retries'')
            (base_url c) 502 d)"
  by (simp add: request_with_retry_def retrying_not_502)


text \<open>A 4xx answer is not retried: one request, and the client error with the body cut at 500.\<close>

lemma client_error_not_retried:
  assumes "current_state (circuit_breaker c) \<noteq> Open"
    and "net (requests_sent c) = Answered r"
    and "400 \<le> resp_status_code r" and "resp_status_code r < 500"
  shows "snd (request_with_retry net c) =
           Inl (ExternalAPIError
                  (''Client error from '' @ base_url c @ '': '' @ show_nat (resp_status_code r))
                  (base_url c) (resp_status_code r)
                  [(''response'', take 500 (resp_text r)), (''service'', base_url c)]) \<and>
         requests_sent (fst (request_with_retry net c)) = Suc (requests_sent c)"
  using assms
  by (simp add: request_with_retry_def retrying.simps make_request_def call_async_def
      raise_for_status_def except_clauses_def mk_ExternalAPIError_def
      retry_if_exception_type_def)


section \<open>Properties of the outbound adapters\<close>

text \<open>
  Both adapters reject an empty id and an empty text before any call; the sender also
  rejects a text of more than 10,000 characters.
\<close>

lemma adapters_reject_empty:
  "wrapper_send_text_message api [] msg =
     (0, Inl (MessageProcessingError ''openid is required'')) \<and>
   (openid \<noteq> [] \<longrightarrow> wrapper_send_text_message api openid [] =
     (0, Inl (MessageProcessingError ''message content is required''))) \<and>
   (openid \<noteq> [] \<and> 10000 < length msg \<longrightarrow> wrapper_send_text_message api openid msg =
     (0, Inl (MessageProcessingError ''message content exceeds 10000 characters''))) \<and>
   cxone_post_message json net c [] text =
     (c, Inl (MessageProcessingError ''openid is required'')) \<and>
   (openid \<noteq> [] \<longrightarrow> cxone_post_message json net c openid [] =
     (c, Inl (MessageProcessingError ''message text is required'')))"
  by (auto simp: wrapper_send_text_message_def cxone_post_message_def)


end
